theory Spec2Isabelle
  imports Main "HOL-Library.Word" "HOL-Library.Signed_Division"
begin

section \<open>Data model of main.c\<close>

text \<open>
  The enumeration \<^verbatim>\<open>Color_t\<close> with its four enumerators, in the order of their values
  0, 1, 2 and 3.
\<close>

datatype Color_t = COLOR_GREEN | COLOR_RED | COLOR_YELLOW | COLOR_UNKNOWN

text \<open>
  An integer assigned to a \<^verbatim>\<open>Color_t\<close> object (\<^verbatim>\<open>pattern[i] = rand() % 3\<close>). The C object
  would keep any integer; the datatype has the four enumerators only, so every other
  value is reported as a fault of the model.
\<close>

definition Color_t_of_int :: "int \<Rightarrow> Color_t option" where
  "Color_t_of_int v =
     (if v = 0 then Some COLOR_GREEN
      else if v = 1 then Some COLOR_RED
      else if v = 2 then Some COLOR_YELLOW
      else if v = 3 then Some COLOR_UNKNOWN
      else None)"

definition PATTERN_LENGTH :: nat where
  "PATTERN_LENGTH = 4"

definition INT_MAX :: int where
  "INT_MAX = 2147483647"

text \<open>
  The ways in which a run leaves the model: a read of \<^verbatim>\<open>pattern[index]\<close> outside the
  array, an increment of an \<^verbatim>\<open>int\<close> at \<^verbatim>\<open>INT_MAX\<close> (both undefined behaviour in C), and
  an integer stored in a \<^verbatim>\<open>Color_t\<close> that is none of its enumerators.
\<close>

datatype fault = Index_Out_Of_Bounds int | Signed_Overflow | Not_A_Color int

text \<open>
  The program's variables: the global array \<^verbatim>\<open>pattern\<close> (its cells
  \<open>0 .. PATTERN_LENGTH - 1\<close>; no operation of the model reads or writes another cell),
  the two \<^verbatim>\<open>static int\<close> variables of \<^verbatim>\<open>CheckPattern\<close>, and the number of calls of
  \<^verbatim>\<open>rand()\<close> made so far. The random source itself is a parameter \<open>rnd\<close>: the value
  returned by the \<open>k\<close>-th call of \<^verbatim>\<open>rand()\<close> is \<open>rnd k\<close>.
\<close>

record state =
  pattern :: "nat \<Rightarrow> Color_t"
  index :: int
  failCount :: int
  rand_calls :: nat

text \<open>Static storage is zero-initialised: every cell holds the enumerator of value 0.\<close>

definition initial_state :: state where
  "initial_state =
     \<lparr>pattern = (\<lambda>i. COLOR_GREEN), index = 0, failCount = 0, rand_calls = 0\<rparr>"

text \<open>
  What the program does to the outside: the calls of the drivers and of \<^verbatim>\<open>printf\<close>, in
  the order in which they happen. The colours of the RGB LED are the macros of the
  board's GPIO header, kept by name.
\<close>

datatype rgb_led =
  RGB_LED_OFF | RGB_LED_RED | RGB_LED_GREEN | RGB_LED_YELLOW
  | RGB_LED_WHITE | RGB_LED_SKY_BLUE | RGB_LED_PINK

datatype event =
  Printf string
  | Printf_rgb "16 word" "16 word" "16 word"
  | LED2_Output rgb_led
  | Clock_Delay1ms nat
  | PMOD_Color_LED_Control_Enable
  | Motor_Forward nat nat
  | Motor_Backward nat nat
  | Motor_Left nat nat
  | Motor_Right nat nat
  | Motor_Stop

section \<open>The colour classifier\<close>

text \<open>
  The operands of the comparisons are \<^verbatim>\<open>uint16_t\<close>; the integer promotions convert them
  to \<^verbatim>\<open>int\<close>, which has 32 bits on the Cortex-M4 of the MSP432. A 32-bit word stands for
  an \<^verbatim>\<open>int\<close>, read with \<open>sint\<close> and compared with the signed order \<open><s\<close>.
\<close>

definition int_of_uint16 :: "16 word \<Rightarrow> 32 word" where
  "int_of_uint16 x = ucast x"

definition Detect_Color :: "16 word \<Rightarrow> 16 word \<Rightarrow> 16 word \<Rightarrow> event list \<times> Color_t" where
  "Detect_Color R G B =
     (if int_of_uint16 R + 3000 <s int_of_uint16 G \<and> int_of_uint16 B + 3000 <s int_of_uint16 G
      then ([Printf ''GREEN\<newline>'', LED2_Output RGB_LED_GREEN], COLOR_GREEN)
      else if 0x2000 <s int_of_uint16 R \<and> 0x2000 <s int_of_uint16 G \<and> int_of_uint16 B <s 0x3000
      then ([Printf ''YELLOW\<newline>'', LED2_Output RGB_LED_YELLOW], COLOR_YELLOW)
      else if int_of_uint16 G + 6000 <s int_of_uint16 R \<and> int_of_uint16 B + 6000 <s int_of_uint16 R
      then ([Printf ''RED\<newline>'', LED2_Output RGB_LED_RED], COLOR_RED)
      else ([LED2_Output RGB_LED_OFF], COLOR_UNKNOWN))"

definition Hold_Color :: "16 word \<Rightarrow> 16 word \<Rightarrow> 16 word \<Rightarrow> event list \<times> Color_t" where
  "Hold_Color R G B =
     (case Detect_Color R G B of (ev, color) \<Rightarrow>
        if color \<noteq> COLOR_UNKNOWN then (ev @ [Clock_Delay1ms 1000], color)
        else (ev, COLOR_UNKNOWN))"

section \<open>The target sequence\<close>

text \<open>
  The loop \<^verbatim>\<open>for (i = 0; i < PATTERN_LENGTH; i++) pattern[i] = rand() % 3\<close>, entered with
  \<open>i = 0\<close>. The remainder of C truncates towards zero: \<open>smod\<close>.
\<close>

function Generate_Random_Pattern_loop :: "(nat \<Rightarrow> int) \<Rightarrow> nat \<Rightarrow> state \<Rightarrow> fault + state" where
  "Generate_Random_Pattern_loop rnd i s =
     (if i < PATTERN_LENGTH then
        (case Color_t_of_int (rnd (rand_calls s) smod 3) of
           None \<Rightarrow> Inl (Not_A_Color (rnd (rand_calls s) smod 3))
         | Some c \<Rightarrow>
             Generate_Random_Pattern_loop rnd (i + 1)
               (s\<lparr>pattern := (pattern s)(i := c), rand_calls := rand_calls s + 1\<rparr>))
      else Inr s)"
  by pat_completeness auto
termination
  by (relation "measure (\<lambda>(rnd, i, s). PATTERN_LENGTH - i)") auto

declare Generate_Random_Pattern_loop.simps [simp del]

definition Generate_Random_Pattern :: "(nat \<Rightarrow> int) \<Rightarrow> state \<Rightarrow> fault + state" where
  "Generate_Random_Pattern rnd s = Generate_Random_Pattern_loop rnd 0 s"

text \<open>
  \<^verbatim>\<open>Show_Pattern\<close>: the \<^verbatim>\<open>switch\<close> has no case for \<^verbatim>\<open>COLOR_UNKNOWN\<close>, which lights nothing.
\<close>

function Show_Pattern_loop :: "nat \<Rightarrow> state \<Rightarrow> event list" where
  "Show_Pattern_loop i s =
     (if i < PATTERN_LENGTH then
        (case pattern s i of
           COLOR_GREEN \<Rightarrow> [LED2_Output RGB_LED_GREEN]
         | COLOR_RED \<Rightarrow> [LED2_Output RGB_LED_RED]
         | COLOR_YELLOW \<Rightarrow> [LED2_Output RGB_LED_YELLOW]
         | COLOR_UNKNOWN \<Rightarrow> [])
        @ [Clock_Delay1ms 700, LED2_Output RGB_LED_OFF, Clock_Delay1ms 300]
        @ Show_Pattern_loop (i + 1) s
      else [])"
  by pat_completeness auto
termination
  by (relation "measure (\<lambda>(i, s). PATTERN_LENGTH - i)") auto

declare Show_Pattern_loop.simps [simp del]

definition Show_Pattern :: "state \<Rightarrow> event list" where
  "Show_Pattern s = Show_Pattern_loop 0 s"

section \<open>The sequence matcher\<close>

text \<open>
  \<^verbatim>\<open>CheckPattern\<close> returns \<open>-1\<close> (ignore), \<open>1\<close> (correct step), \<open>2\<close> (full pattern
  matched) or \<open>0\<close> (full failure), together with the variables as it leaves them.
\<close>

definition CheckPattern :: "Color_t \<Rightarrow> state \<Rightarrow> fault + (int \<times> state)" where
  "CheckPattern detected s =
     (if detected = COLOR_UNKNOWN then Inr (- 1, s)
      else if index s < 0 \<or> int PATTERN_LENGTH \<le> index s then Inl (Index_Out_Of_Bounds (index s))
      else if detected = pattern s (nat (index s)) then
        (let s1 = s\<lparr>failCount := 0\<rparr>;
             s2 = s1\<lparr>index := index s1 + 1\<rparr>
         in if index s2 = int PATTERN_LENGTH then Inr (2, s2\<lparr>index := 0\<rparr>)
            else Inr (1, s2))
      else if failCount s = INT_MAX then Inl Signed_Overflow
      else
        (let s1 = s\<lparr>failCount := failCount s + 1\<rparr>
         in if failCount s1 \<ge> 2 then Inr (0, s1\<lparr>index := 0, failCount := 0\<rparr>)
            else Inr (- 1, s1)))"

text \<open>
  The matcher called on a list of observations, one after the other, collecting what it
  returns.
\<close>

fun feed :: "Color_t list \<Rightarrow> state \<Rightarrow> fault + (int list \<times> state)" where
  "feed [] s = Inr ([], s)"
| "feed (d # ds) s =
     (case CheckPattern d s of
        Inl f \<Rightarrow> Inl f
      | Inr (r, s1) \<Rightarrow>
          (case feed ds s1 of
             Inl f \<Rightarrow> Inl f
           | Inr (rs, s2) \<Rightarrow> Inr (r # rs, s2)))"

section \<open>The control loop of main\<close>

text \<open>
  \<^verbatim>\<open>main\<close> up to the loop, from \<^verbatim>\<open>srand\<close> on: the pattern is generated and shown. The
  initialisation of the drivers before it touches none of the program's variables.
\<close>

definition main_start :: "(nat \<Rightarrow> int) \<Rightarrow> fault + (event list \<times> state)" where
  "main_start rnd =
     (case Generate_Random_Pattern rnd initial_state of
        Inl f \<Rightarrow> Inl f
      | Inr s \<Rightarrow> Inr (Show_Pattern s, s))"

text \<open>
  One iteration of \<^verbatim>\<open>while(1)\<close>. The sensor driver is not part of the program text; its
  calibrated and normalised sample \<open>(R, G, B)\<close> of this iteration is a parameter.
\<close>

definition loop_body ::
  "(nat \<Rightarrow> int) \<Rightarrow> 16 word \<Rightarrow> 16 word \<Rightarrow> 16 word \<Rightarrow> state \<Rightarrow> fault + (event list \<times> state)" where
  "loop_body rnd R G B s =
     (let ev0 = [PMOD_Color_LED_Control_Enable, Printf_rgb R G B, Clock_Delay1ms 50]
      in case Hold_Color R G B of (ev1, detect) \<Rightarrow>
         (case CheckPattern detect s of
            Inl f \<Rightarrow> Inl f
          | Inr (result, s1) \<Rightarrow>
              if result = 1 then
                Inr (ev0 @ ev1 @
                     [Printf ''Correct step!\<newline>'', LED2_Output RGB_LED_WHITE,
                      Clock_Delay1ms 500, LED2_Output RGB_LED_OFF], s1)
              else if result = 2 then
                (case Generate_Random_Pattern rnd s1 of
                   Inl f \<Rightarrow> Inl f
                 | Inr s2 \<Rightarrow>
                     Inr (ev0 @ ev1 @
                          [Printf ''ACCESS GRANTED!\<newline>'', LED2_Output RGB_LED_SKY_BLUE,
                           Clock_Delay1ms 3000, LED2_Output RGB_LED_OFF,
                           Motor_Forward 3000 3000, Clock_Delay1ms 2000,
                           Motor_Backward 3000 3000, Clock_Delay1ms 2000, Motor_Stop]
                          @ Show_Pattern s2, s2))
              else if result = 0 then
                Inr (ev0 @ ev1 @
                     [Printf ''Wrong! Restarting...\<newline>'', LED2_Output RGB_LED_PINK,
                      Clock_Delay1ms 2500, LED2_Output RGB_LED_OFF,
                      Clock_Delay1ms 500,
                      Motor_Left 4500 4500, Clock_Delay1ms 2000,
                      Motor_Right 4500 4500, Clock_Delay1ms 2000, Motor_Stop]
                     @ Show_Pattern s1, s1)
              else Inr (ev0 @ ev1, s1)))"

section \<open>Predicates and sample states of the properties\<close>

text \<open>
  The matcher's invariant: \<^verbatim>\<open>index\<close> is an index of the array and \<^verbatim>\<open>failCount\<close> is below
  the threshold of two.
\<close>

definition matcher_inv :: "state \<Rightarrow> bool" where
  "matcher_inv s \<longleftrightarrow>
     0 \<le> index s \<and> index s < int PATTERN_LENGTH \<and> 0 \<le> failCount s \<and> failCount s < 2"

text \<open>The colours a target sequence is drawn from.\<close>

definition target_colors :: "Color_t set" where
  "target_colors = {COLOR_GREEN, COLOR_RED, COLOR_YELLOW}"

text \<open>
  A concrete state, with the target sequence Red, Yellow, Green, Red as four calls of
  \<^verbatim>\<open>rand()\<close> can leave it, at a given cursor and failure count.
\<close>

definition sample_state :: "int \<Rightarrow> int \<Rightarrow> state" where
  "sample_state i f =
     \<lparr>pattern = (\<lambda>k. COLOR_GREEN)(0 := COLOR_RED, 1 := COLOR_YELLOW, 3 := COLOR_RED),
      index = i, failCount = f, rand_calls = 4\<rparr>"

text \<open>A random source whose first values are 1, 5, 9, 13: Red, Yellow, Green, Red.\<close>

definition sample_rnd :: "nat \<Rightarrow> int" where
  "sample_rnd k = 4 * int k + 1"

section \<open>Properties of the classifier\<close>

lemma uint16_range: "0 \<le> uint (x :: 16 word) \<and> uint x < 65536"
  using uint_bounded [of x] by simp

lemma sint_int_of_uint16: "sint (int_of_uint16 x) = uint x"
proof -
  have lo: "- (2 ^ 31) \<le> uint x"
    by (rule order_trans [of _ 0]) simp_all
  have hi: "uint x < 2 ^ 31"
    using uint16_range [of x] by simp
  have "signed_take_bit 31 (uint x) = uint x"
    using lo hi by (rule signed_take_bit_int_eq_self)
  then show ?thesis
    unfolding int_of_uint16_def by (simp add: signed_ucast_eq)
qed

lemma sint_add_const:
  assumes "0 \<le> c" "c \<le> 6000"
  shows "sint (int_of_uint16 x + word_of_int c) = uint x + c"
proof -
  have c31: "signed_take_bit 31 c = c"
    using assms by (intro signed_take_bit_int_eq_self) simp_all
  have nonneg: "0 \<le> uint x + c"
    using assms by (intro add_nonneg_nonneg) simp_all
  have lo: "- (2 ^ 31) \<le> uint x + c"
    by (rule order_trans [OF _ nonneg]) simp
  have hi: "uint x + c < 2 ^ 31"
    using uint16_range [of x] assms by simp
  have "signed_take_bit 31 (uint x + c) = uint x + c"
    using lo hi by (rule signed_take_bit_int_eq_self)
  then show ?thesis
    by (simp add: sint_word_ariths sint_int_of_uint16 sint_sbintrunc' c31)
qed

lemma sint_add_3000: "sint (int_of_uint16 x + 3000) = uint x + 3000"
  using sint_add_const [of 3000 x] by simp

lemma sint_add_6000: "sint (int_of_uint16 x + 6000) = uint x + 6000"
  using sint_add_const [of 6000 x] by simp

lemma sless_add_3000:
  "int_of_uint16 x + 3000 <s int_of_uint16 y \<longleftrightarrow> uint x + 3000 < uint y"
  by (simp only: word_sless_alt sint_add_3000 sint_int_of_uint16)

lemma sless_add_6000:
  "int_of_uint16 x + 6000 <s int_of_uint16 y \<longleftrightarrow> uint x + 6000 < uint y"
  by (simp only: word_sless_alt sint_add_6000 sint_int_of_uint16)

lemma sless_0x2000: "0x2000 <s int_of_uint16 x \<longleftrightarrow> 8192 < uint x"
  by (simp add: word_sless_alt sint_int_of_uint16)

lemma sless_0x3000: "int_of_uint16 x <s 0x3000 \<longleftrightarrow> uint x < 12288"
  by (simp add: word_sless_alt sint_int_of_uint16)

lemmas Detect_Color_tests = sless_add_3000 sless_add_6000 sless_0x2000 sless_0x3000

lemma Detect_Color_exact:
  "snd (Detect_Color R G B) =
     (if uint R + 3000 < uint G \<and> uint B + 3000 < uint G then COLOR_GREEN
      else if 8192 < uint R \<and> 8192 < uint G \<and> uint B < 12288 then COLOR_YELLOW
      else if uint G + 6000 < uint R \<and> uint B + 6000 < uint R then COLOR_RED
      else COLOR_UNKNOWN)"
  unfolding Detect_Color_def Detect_Color_tests by simp

text \<open>
  Claim C1. For every \<open>(R, G, B)\<close> of unsigned 16-bit values, \<^verbatim>\<open>Detect_Color\<close> returns the
  first rule that matches, in the order Green (\<open>G > R + 3000\<close> and \<open>G > B + 3000\<close>),
  Yellow (\<open>R > 8192\<close>, \<open>G > 8192\<close> and \<open>B < 12288\<close>), Red (\<open>R > G + 6000\<close> and
  \<open>R > B + 6000\<close>), and Unknown otherwise, the sums being those of the integers. In
  particular an input that satisfies the Green test is Green, whatever the Yellow and
  Red tests say.
\<close>

theorem Detect_Color_first_match:
  "snd (Detect_Color R G B) =
     (if uint G > uint R + 3000 \<and> uint G > uint B + 3000 then COLOR_GREEN
      else if uint R > 8192 \<and> uint G > 8192 \<and> uint B < 12288 then COLOR_YELLOW
      else if uint R > uint G + 6000 \<and> uint R > uint B + 6000 then COLOR_RED
      else COLOR_UNKNOWN)
   \<and> (uint G > uint R + 3000 \<and> uint G > uint B + 3000
        \<longrightarrow> snd (Detect_Color R G B) = COLOR_GREEN)"
  by (simp add: Detect_Color_exact)

theorem Detect_Color_first_match_witness:
  "uint (30000 :: 16 word) > uint (20000 :: 16 word) + 3000
   \<and> uint (30000 :: 16 word) > uint (1000 :: 16 word) + 3000
   \<and> uint (20000 :: 16 word) > 8192 \<and> uint (30000 :: 16 word) > 8192
   \<and> uint (1000 :: 16 word) < 12288
   \<and> snd (Detect_Color 20000 30000 1000) = COLOR_GREEN"
  using Detect_Color_first_match [of 20000 30000 1000] by simp

text \<open>
  Claim C10. The four sums \<open>R + 3000\<close>, \<open>B + 3000\<close>, \<open>G + 6000\<close> and \<open>B + 6000\<close> that
  \<^verbatim>\<open>Detect_Color\<close> compares are computed on promoted operands and have their exact
  values, also above 65535: what \<^verbatim>\<open>Detect_Color\<close> returns is, for every input, what the
  Green, Yellow and Red tests give over the integers, so it is Green exactly when the
  Green test holds there and Red exactly when the Red test holds there and neither Green
  nor Yellow does. For each sum there is an input at which arithmetic modulo \<open>2 ^ 16\<close>
  would give another answer: \<^verbatim>\<open>Detect_Color(65535, 65535, 0)\<close> is Yellow and
  \<^verbatim>\<open>Detect_Color(0, 65535, 65535)\<close> is Unknown, where the wrapped Green test succeeds;
  \<^verbatim>\<open>Detect_Color(65535, 60000, 20000)\<close> and \<^verbatim>\<open>Detect_Color(65535, 0, 60000)\<close> are Unknown,
  where the wrapped Red test succeeds.
\<close>

theorem Detect_Color_exact_arithmetic:
  "sint (int_of_uint16 R + 3000) = uint R + 3000
   \<and> sint (int_of_uint16 B + 3000) = uint B + 3000
   \<and> sint (int_of_uint16 G + 6000) = uint G + 6000
   \<and> sint (int_of_uint16 B + 6000) = uint B + 6000
   \<and> snd (Detect_Color R G B) =
        (if uint R + 3000 < uint G \<and> uint B + 3000 < uint G then COLOR_GREEN
         else if 8192 < uint R \<and> 8192 < uint G \<and> uint B < 12288 then COLOR_YELLOW
         else if uint G + 6000 < uint R \<and> uint B + 6000 < uint R then COLOR_RED
         else COLOR_UNKNOWN)
   \<and> (snd (Detect_Color R G B) = COLOR_GREEN
        \<longleftrightarrow> uint R + 3000 < uint G \<and> uint B + 3000 < uint G)
   \<and> (snd (Detect_Color R G B) = COLOR_RED
        \<longleftrightarrow> \<not> (uint R + 3000 < uint G \<and> uint B + 3000 < uint G)
            \<and> \<not> (8192 < uint R \<and> 8192 < uint G \<and> uint B < 12288)
            \<and> uint G + 6000 < uint R \<and> uint B + 6000 < uint R)
   \<and> snd (Detect_Color 65535 65535 0) = COLOR_YELLOW
   \<and> ((65535 :: 16 word) + 3000 < 65535 \<and> (0 :: 16 word) + 3000 < 65535)
   \<and> snd (Detect_Color 0 65535 65535) = COLOR_UNKNOWN
   \<and> ((0 :: 16 word) + 3000 < 65535 \<and> (65535 :: 16 word) + 3000 < 65535)
   \<and> snd (Detect_Color 65535 60000 20000) = COLOR_UNKNOWN
   \<and> ((60000 :: 16 word) + 6000 < 65535 \<and> (20000 :: 16 word) + 6000 < 65535)
   \<and> snd (Detect_Color 65535 0 60000) = COLOR_UNKNOWN
   \<and> ((0 :: 16 word) + 6000 < 65535 \<and> (60000 :: 16 word) + 6000 < 65535)"
proof -
  have green: "snd (Detect_Color R G B) = COLOR_GREEN
      \<longleftrightarrow> uint R + 3000 < uint G \<and> uint B + 3000 < uint G"
    by (simp add: Detect_Color_exact)
  have red: "snd (Detect_Color R G B) = COLOR_RED
      \<longleftrightarrow> \<not> (uint R + 3000 < uint G \<and> uint B + 3000 < uint G)
          \<and> \<not> (8192 < uint R \<and> 8192 < uint G \<and> uint B < 12288)
          \<and> uint G + 6000 < uint R \<and> uint B + 6000 < uint R"
    unfolding Detect_Color_exact by simp
  have r3000: "snd (Detect_Color 65535 65535 0) = COLOR_YELLOW"
    by (simp add: Detect_Color_exact)
  have b3000: "snd (Detect_Color 0 65535 65535) = COLOR_UNKNOWN"
    by (simp add: Detect_Color_exact)
  have g6000: "snd (Detect_Color 65535 60000 20000) = COLOR_UNKNOWN"
    by (simp add: Detect_Color_exact)
  have b6000: "snd (Detect_Color 65535 0 60000) = COLOR_UNKNOWN"
    by (simp add: Detect_Color_exact)
  have wrap_3000: "(65535 :: 16 word) + 3000 < 65535" "(0 :: 16 word) + 3000 < 65535"
    by simp_all
  have wrap_6000: "(60000 :: 16 word) + 6000 < 65535" "(20000 :: 16 word) + 6000 < 65535"
    "(0 :: 16 word) + 6000 < 65535"
    by simp_all
  show ?thesis
    by (intro conjI)
      (rule sint_add_3000 sint_add_6000 Detect_Color_exact green red r3000 b3000 g6000 b6000
        wrap_3000 wrap_6000)+
qed

theorem Detect_Color_exact_arithmetic_witness:
  "snd (Detect_Color 65535 60000 60000) = COLOR_UNKNOWN
   \<and> sint (int_of_uint16 60000 + 6000) = 66000
   \<and> (60000 :: 16 word) + 6000 < 65535"
  using Detect_Color_exact_arithmetic [of 65535 60000 60000]
  by simp

section \<open>Properties of the matcher\<close>

lemma CheckPattern_UNKNOWN: "CheckPattern COLOR_UNKNOWN s = Inr (- 1, s)"
  by (simp add: CheckPattern_def)

lemma CheckPattern_match:
  assumes "d \<noteq> COLOR_UNKNOWN" "0 \<le> index s" "index s < 4" "d = pattern s (nat (index s))"
  shows "CheckPattern d s =
           (if index s + 1 = 4 then Inr (2, s\<lparr>index := 0, failCount := 0\<rparr>)
            else Inr (1, s\<lparr>index := index s + 1, failCount := 0\<rparr>))"
  using assms by (simp add: CheckPattern_def PATTERN_LENGTH_def Let_def)

lemma CheckPattern_miss:
  assumes "d \<noteq> COLOR_UNKNOWN" "0 \<le> index s" "index s < 4" "d \<noteq> pattern s (nat (index s))"
    and "failCount s < INT_MAX"
  shows "CheckPattern d s =
           (if failCount s + 1 \<ge> 2 then Inr (0, s\<lparr>index := 0, failCount := 0\<rparr>)
            else Inr (- 1, s\<lparr>failCount := failCount s + 1\<rparr>))"
  using assms by (simp add: CheckPattern_def PATTERN_LENGTH_def Let_def)

text \<open>
  Claim C2. From a state with \<open>0 \<le> index < 4\<close> and \<open>0 \<le> failCount < 2\<close>,
  \<^verbatim>\<open>CheckPattern\<close> follows the transition table, row by row: Unknown changes nothing and
  is ignored (\<open>-1\<close>); the expected colour clears \<^verbatim>\<open>failCount\<close> and advances the cursor, which
  is reset to 0 with the result 2 (sequence complete) when it reaches 4, and gives 1
  (correct step) otherwise; any other colour increments \<^verbatim>\<open>failCount\<close>, which at 2 gives 0
  (hard failure) with both variables reset, and \<open>-1\<close> with the cursor unchanged otherwise.
\<close>

theorem CheckPattern_transition_table:
  assumes "0 \<le> index s" "index s < 4" "0 \<le> failCount s" "failCount s < 2"
  shows "(observed = COLOR_UNKNOWN \<longrightarrow> CheckPattern observed s = Inr (- 1, s))
    \<and> (observed \<noteq> COLOR_UNKNOWN \<and> observed = pattern s (nat (index s)) \<and> index s + 1 = 4
         \<longrightarrow> CheckPattern observed s = Inr (2, s\<lparr>index := 0, failCount := 0\<rparr>))
    \<and> (observed \<noteq> COLOR_UNKNOWN \<and> observed = pattern s (nat (index s)) \<and> index s + 1 \<noteq> 4
         \<longrightarrow> CheckPattern observed s = Inr (1, s\<lparr>index := index s + 1, failCount := 0\<rparr>))
    \<and> (observed \<noteq> COLOR_UNKNOWN \<and> observed \<noteq> pattern s (nat (index s)) \<and> failCount s + 1 \<ge> 2
         \<longrightarrow> CheckPattern observed s = Inr (0, s\<lparr>index := 0, failCount := 0\<rparr>))
    \<and> (observed \<noteq> COLOR_UNKNOWN \<and> observed \<noteq> pattern s (nat (index s)) \<and> failCount s + 1 < 2
         \<longrightarrow> CheckPattern observed s = Inr (- 1, s\<lparr>failCount := failCount s + 1\<rparr>))"
proof -
  have small: "failCount s < INT_MAX"
    using assms(4) by (simp add: INT_MAX_def)
  have unknown: "CheckPattern observed s = Inr (- 1, s)" if "observed = COLOR_UNKNOWN"
    using that by (simp add: CheckPattern_UNKNOWN)
  have complete: "CheckPattern observed s = Inr (2, s\<lparr>index := 0, failCount := 0\<rparr>)"
    if "observed \<noteq> COLOR_UNKNOWN" "observed = pattern s (nat (index s))" "index s + 1 = 4"
    using that assms(1,2) CheckPattern_match [of observed s] by simp
  have step: "CheckPattern observed s = Inr (1, s\<lparr>index := index s + 1, failCount := 0\<rparr>)"
    if "observed \<noteq> COLOR_UNKNOWN" "observed = pattern s (nat (index s))" "index s + 1 \<noteq> 4"
    using that assms(1,2) CheckPattern_match [of observed s] by simp
  have hard: "CheckPattern observed s = Inr (0, s\<lparr>index := 0, failCount := 0\<rparr>)"
    if "observed \<noteq> COLOR_UNKNOWN" "observed \<noteq> pattern s (nat (index s))"
      "failCount s + 1 \<ge> 2"
    using that assms(1,2) small CheckPattern_miss [of observed s] by simp
  have soft: "CheckPattern observed s = Inr (- 1, s\<lparr>failCount := failCount s + 1\<rparr>)"
    if "observed \<noteq> COLOR_UNKNOWN" "observed \<noteq> pattern s (nat (index s))"
      "failCount s + 1 < 2"
    using that assms(1,2) small CheckPattern_miss [of observed s] by simp
  show ?thesis
    using unknown complete step hard soft by blast
qed

lemma sample_state_simps:
  "index (sample_state i f) = i" "failCount (sample_state i f) = f"
  "pattern (sample_state i f) 0 = COLOR_RED"
  "pattern (sample_state i f) (Suc 0) = COLOR_YELLOW"
  "pattern (sample_state i f) 2 = COLOR_GREEN"
  "pattern (sample_state i f) 3 = COLOR_RED"
  "sample_state i f\<lparr>index := j\<rparr> = sample_state j f"
  "sample_state i f\<lparr>failCount := g\<rparr> = sample_state i g"
  by (simp_all add: sample_state_def)

theorem CheckPattern_transition_table_witness:
  "CheckPattern COLOR_UNKNOWN (sample_state 2 1) = Inr (- 1, sample_state 2 1)
   \<and> CheckPattern COLOR_RED (sample_state 3 1) = Inr (2, sample_state 0 0)
   \<and> CheckPattern COLOR_YELLOW (sample_state 1 1) = Inr (1, sample_state 2 0)
   \<and> CheckPattern COLOR_RED (sample_state 1 1) = Inr (0, sample_state 0 0)
   \<and> CheckPattern COLOR_RED (sample_state 1 0) = Inr (- 1, sample_state 1 1)"
  using CheckPattern_transition_table [of "sample_state 2 1" COLOR_UNKNOWN]
    CheckPattern_transition_table [of "sample_state 3 1" COLOR_RED]
    CheckPattern_transition_table [of "sample_state 1 1" COLOR_YELLOW]
    CheckPattern_transition_table [of "sample_state 1 1" COLOR_RED]
    CheckPattern_transition_table [of "sample_state 1 0" COLOR_RED]
  by (simp add: sample_state_simps)

lemma feed_two:
  "CheckPattern d1 s = Inr (r1, s1) \<Longrightarrow> CheckPattern d2 s1 = Inr (r2, s2)
   \<Longrightarrow> feed [d1, d2] s = Inr ([r1, r2], s2)"
  by simp

text \<open>
  Claim C4. From a state with \<open>failCount = 0\<close> and a cursor in the array, two colours in a
  row that are not Unknown and both differ from the expected one are answered by \<open>-1\<close>
  (ignore) and then 0 (hard failure), and leave the cursor and \<^verbatim>\<open>failCount\<close> at 0.
\<close>

theorem two_misses_hard_fail:
  assumes "failCount s = 0" "0 \<le> index s" "index s < 4"
    and "d1 \<noteq> COLOR_UNKNOWN" "d2 \<noteq> COLOR_UNKNOWN"
    and "d1 \<noteq> pattern s (nat (index s))" "d2 \<noteq> pattern s (nat (index s))"
  shows "feed [d1, d2] s = Inr ([- 1, 0], s\<lparr>index := 0, failCount := 0\<rparr>)"
proof -
  have first: "CheckPattern d1 s = Inr (- 1, s\<lparr>failCount := 1\<rparr>)"
    using assms by (simp add: CheckPattern_miss INT_MAX_def)
  have second: "CheckPattern d2 (s\<lparr>failCount := 1\<rparr>) = Inr (0, s\<lparr>index := 0, failCount := 0\<rparr>)"
    using assms by (simp add: CheckPattern_miss INT_MAX_def)
  show ?thesis
    by (rule feed_two [OF first second])
qed

theorem two_misses_hard_fail_witness:
  "feed [COLOR_GREEN, COLOR_RED] (sample_state 1 0) = Inr ([- 1, 0], sample_state 0 0)"
  using two_misses_hard_fail [of "sample_state 1 0" COLOR_GREEN COLOR_RED]
  by (simp add: sample_state_simps)

text \<open>
  Claim C5, as amended. From a state with \<open>failCount = 0\<close> and a cursor in the array whose
  expected colour is Green, Red or Yellow, one wrong colour followed by the expected one
  is answered by \<open>-1\<close> (ignore) and then, below the last position, by 1 (correct step)
  with the cursor one further; at the last position (cursor 3) the second answer is 2
  (sequence complete) and the cursor is back at 0. \<^verbatim>\<open>failCount\<close> is 0 again in both cases.
\<close>

theorem miss_then_match:
  assumes "failCount s = 0" "0 \<le> index s" "index s < 4"
    and "pattern s (nat (index s)) \<in> target_colors"
    and "d \<noteq> COLOR_UNKNOWN" "d \<noteq> pattern s (nat (index s))"
  shows "feed [d, pattern s (nat (index s))] s =
           (if index s < 3 then Inr ([- 1, 1], s\<lparr>index := index s + 1\<rparr>)
            else Inr ([- 1, 2], s\<lparr>index := 0\<rparr>))"
proof -
  have target: "pattern s (nat (index s)) \<noteq> COLOR_UNKNOWN"
    using assms(4) by (auto simp: target_colors_def)
  have first: "CheckPattern d s = Inr (- 1, s\<lparr>failCount := 1\<rparr>)"
    using assms by (simp add: CheckPattern_miss INT_MAX_def)
  have second: "CheckPattern (pattern s (nat (index s))) (s\<lparr>failCount := 1\<rparr>) =
      (if index s < 3 then Inr (1, s\<lparr>index := index s + 1\<rparr>) else Inr (2, s\<lparr>index := 0\<rparr>))"
    using assms target by (simp add: CheckPattern_match)
  show ?thesis
    using first second by simp
qed

theorem miss_then_match_witness:
  "feed [COLOR_GREEN, COLOR_YELLOW] (sample_state 1 0) = Inr ([- 1, 1], sample_state 2 0)
   \<and> feed [COLOR_GREEN, COLOR_RED] (sample_state 3 0) = Inr ([- 1, 2], sample_state 0 0)"
  using miss_then_match [of "sample_state 1 0" COLOR_GREEN]
    miss_then_match [of "sample_state 3 0" COLOR_GREEN]
  by (simp add: sample_state_simps target_colors_def)

text \<open>
  Claim C5, as stated, fails at the last position: with the pattern Red, Yellow, Green,
  Red, the cursor at 3 and \<open>failCount = 0\<close>, the wrong colour Green followed by the
  expected Red is answered by \<open>-1\<close> and 2, not by \<open>-1\<close> and 1, and the cursor ends at 0,
  not at 4.
\<close>

theorem miss_then_match_at_last_cursor:
  "failCount (sample_state 3 0) = 0
   \<and> 0 \<le> index (sample_state 3 0) \<and> index (sample_state 3 0) < 4
   \<and> COLOR_GREEN \<noteq> COLOR_UNKNOWN
   \<and> COLOR_GREEN \<noteq> pattern (sample_state 3 0) (nat (index (sample_state 3 0)))
   \<and> feed [COLOR_GREEN, pattern (sample_state 3 0) (nat (index (sample_state 3 0)))]
        (sample_state 3 0) = Inr ([- 1, 2], sample_state 0 0)
   \<and> [- 1, 2] \<noteq> [- 1, 1 :: int]
   \<and> index (sample_state 0 0) \<noteq> index (sample_state 3 0) + 1"
  by (simp add: sample_state_simps CheckPattern_def PATTERN_LENGTH_def INT_MAX_def)

text \<open>
  Claim C6. From every state, any number \<open>n\<close> of Unknown observations in a row is answered
  by \<open>n\<close> times \<open>-1\<close> (ignore) and leaves the state, cursor and \<^verbatim>\<open>failCount\<close> included, as
  it was.
\<close>

theorem unknown_ignored:
  "feed (replicate n COLOR_UNKNOWN) s = Inr (replicate n (- 1), s)"
  by (induction n) (simp_all add: CheckPattern_UNKNOWN)

lemma pattern_positions: "[0..<PATTERN_LENGTH] = [0, 1, 2, 3]"
  unfolding PATTERN_LENGTH_def by code_simp

lemma target_colors_known: "c \<in> target_colors \<Longrightarrow> c \<noteq> COLOR_UNKNOWN"
  by (auto simp: target_colors_def)

lemma CheckPattern_expected:
  assumes "pattern s (nat k) \<noteq> COLOR_UNKNOWN" "0 \<le> k" "k < 4"
  shows "CheckPattern (pattern s (nat k)) (s\<lparr>index := k, failCount := 0\<rparr>)
      = (if k + 1 = 4 then Inr (2, s\<lparr>index := 0, failCount := 0\<rparr>)
         else Inr (1, s\<lparr>index := k + 1, failCount := 0\<rparr>))"
proof -
  have "CheckPattern (pattern s (nat k)) (s\<lparr>index := k, failCount := 0\<rparr>) =
      (if index (s\<lparr>index := k, failCount := 0\<rparr>) + 1 = 4
       then Inr (2, s\<lparr>index := k, failCount := 0\<rparr>\<lparr>index := 0, failCount := 0\<rparr>)
       else Inr (1, s\<lparr>index := k, failCount := 0\<rparr>
              \<lparr>index := index (s\<lparr>index := k, failCount := 0\<rparr>) + 1, failCount := 0\<rparr>))"
    using assms by (intro CheckPattern_match) simp_all
  then show ?thesis
    by simp
qed

text \<open>
  Claim C3. For every target sequence of Green, Red and Yellow in the four cells, from
  the fresh state (cursor 0, \<open>failCount = 0\<close>) the four target colours fed in order are
  answered by 1, 1, 1 and 2 (three correct steps, then sequence complete), and the cursor
  is 0 again afterwards.
\<close>

theorem exact_sequence_completes:
  assumes colors: "\<forall>i<PATTERN_LENGTH. pattern s i \<in> target_colors"
    and fresh: "index s = 0" "failCount s = 0"
  shows "feed (map (pattern s) [0..<PATTERN_LENGTH]) s
           = Inr ([1, 1, 1, 2], s\<lparr>index := 0, failCount := 0\<rparr>)"
proof -
  have known: "pattern s i \<noteq> COLOR_UNKNOWN" if "i < 4" for i
  proof -
    from that have "i < PATTERN_LENGTH"
      by (simp add: PATTERN_LENGTH_def)
    with colors have "pattern s i \<in> target_colors"
      by blast
    then show ?thesis
      by (rule target_colors_known)
  qed
  have "s\<lparr>index := index s, failCount := failCount s\<rparr> = s"
    by simp
  then have start: "s\<lparr>index := 0, failCount := 0\<rparr> = s"
    unfolding fresh .
  have c0: "CheckPattern (pattern s 0) (s\<lparr>index := 0, failCount := 0\<rparr>)
      = Inr (1, s\<lparr>index := 1, failCount := 0\<rparr>)"
    using CheckPattern_expected [of s 0] known [of 0] by simp
  have c1: "CheckPattern (pattern s 1) (s\<lparr>index := 1, failCount := 0\<rparr>)
      = Inr (1, s\<lparr>index := 2, failCount := 0\<rparr>)"
    using CheckPattern_expected [of s 1] known [of 1] by simp
  have c2: "CheckPattern (pattern s 2) (s\<lparr>index := 2, failCount := 0\<rparr>)
      = Inr (1, s\<lparr>index := 3, failCount := 0\<rparr>)"
    using CheckPattern_expected [of s 2] known [of 2] by simp
  have c3: "CheckPattern (pattern s 3) (s\<lparr>index := 3, failCount := 0\<rparr>)
      = Inr (2, s\<lparr>index := 0, failCount := 0\<rparr>)"
    using CheckPattern_expected [of s 3] known [of 3] by simp
  have "feed [pattern s 0, pattern s 1, pattern s 2, pattern s 3]
          (s\<lparr>index := 0, failCount := 0\<rparr>)
        = Inr ([1, 1, 1, 2], s\<lparr>index := 0, failCount := 0\<rparr>)"
    using c0 c1 c2 c3 by simp
  then show ?thesis
    unfolding pattern_positions by (simp add: start)
qed

lemma sample_state_colors: "\<forall>i<PATTERN_LENGTH. pattern (sample_state c f) i \<in> target_colors"
  by (simp add: sample_state_def target_colors_def PATTERN_LENGTH_def)

theorem exact_sequence_completes_witness:
  "feed [COLOR_RED, COLOR_YELLOW, COLOR_GREEN, COLOR_RED] (sample_state 0 0)
     = Inr ([1, 1, 1, 2], sample_state 0 0)"
  using exact_sequence_completes [OF sample_state_colors, of 0 0]
  by (simp add: sample_state_simps pattern_positions)

lemma matcher_inv_initial: "matcher_inv initial_state"
  by (simp add: matcher_inv_def initial_state_def PATTERN_LENGTH_def)

lemma CheckPattern_total:
  assumes "matcher_inv s"
  shows "\<exists>r s'. CheckPattern d s = Inr (r, s') \<and> matcher_inv s' \<and> pattern s' = pattern s
            \<and> rand_calls s' = rand_calls s \<and> r \<in> {- 1, 0, 1, 2}"
  using assms
  by (auto simp add: CheckPattern_def matcher_inv_def PATTERN_LENGTH_def INT_MAX_def Let_def)

lemma feed_total:
  "matcher_inv s \<Longrightarrow> \<exists>rs s'. feed ds s = Inr (rs, s') \<and> matcher_inv s' \<and> length rs = length ds"
proof (induction ds arbitrary: s)
  case Nil
  then show ?case by simp
next
  case (Cons d ds)
  from CheckPattern_total [OF Cons.prems, of d]
  obtain r s1 where step: "CheckPattern d s = Inr (r, s1)" and inv1: "matcher_inv s1"
    by blast
  from Cons.IH [OF inv1]
  obtain rs s2 where rest: "feed ds s1 = Inr (rs, s2)" and inv2: "matcher_inv s2"
    and len: "length rs = length ds"
    by blast
  have "feed (d # ds) s = Inr (r # rs, s2)"
    using step rest by simp
  then show ?case
    using inv2 len by simp
qed

lemma CheckPattern_ignore_below_threshold:
  assumes "d \<noteq> COLOR_UNKNOWN" "CheckPattern d s = Inr (- 1, s')"
  shows "failCount s' < 2"
  using assms
  by (auto simp add: CheckPattern_def Let_def split: if_splits)

text \<open>
  Claim C7. \<open>0 \<le> index < 4\<close> and \<open>0 \<le> failCount < 2\<close> is an invariant: it holds at the
  start, and from a state that satisfies it every call of \<^verbatim>\<open>CheckPattern\<close>, and every
  sequence of calls, returns and leaves a state that satisfies it. So the cursor a caller
  sees is never 4 and \<^verbatim>\<open>failCount\<close> never 2; in particular a call that answers \<open>-1\<close>
  (ignore) leaves \<^verbatim>\<open>failCount\<close> below 2, and from any state at all when the colour was not
  Unknown.
\<close>

theorem matcher_invariant:
  "matcher_inv initial_state
   \<and> (matcher_inv s \<longrightarrow>
        (\<exists>r s'. CheckPattern d s = Inr (r, s') \<and> matcher_inv s'))
   \<and> (matcher_inv s \<longrightarrow>
        (\<exists>rs s'. feed ds s = Inr (rs, s') \<and> matcher_inv s'))
   \<and> (matcher_inv s \<and> CheckPattern d s = Inr (- 1, s') \<longrightarrow> failCount s' < 2)
   \<and> (d \<noteq> COLOR_UNKNOWN \<and> CheckPattern d s = Inr (- 1, s') \<longrightarrow> failCount s' < 2)"
proof -
  have step: "\<exists>r s'. CheckPattern d s = Inr (r, s') \<and> matcher_inv s'" if "matcher_inv s"
    using CheckPattern_total [OF that, of d] by blast
  have run: "\<exists>rs s'. feed ds s = Inr (rs, s') \<and> matcher_inv s'" if "matcher_inv s"
    using feed_total [OF that, of ds] by blast
  have ignore: "failCount s' < 2" if "matcher_inv s" "CheckPattern d s = Inr (- 1, s')"
    using step [OF that(1)] that(2) by (auto simp: matcher_inv_def)
  show ?thesis
    using matcher_inv_initial step run ignore CheckPattern_ignore_below_threshold [of d s s']
    by blast
qed

theorem matcher_invariant_witness:
  "matcher_inv (sample_state 1 1)
   \<and> CheckPattern COLOR_GREEN (sample_state 1 1) = Inr (0, sample_state 0 0)
   \<and> matcher_inv (sample_state 0 0)
   \<and> CheckPattern COLOR_GREEN (sample_state 1 0) = Inr (- 1, sample_state 1 1)
   \<and> failCount (sample_state 1 1) < 2"
  using matcher_invariant [of "sample_state 1 1" COLOR_GREEN "[COLOR_GREEN]" "sample_state 0 0"]
    matcher_invariant [of "sample_state 1 0" COLOR_GREEN "[COLOR_GREEN]" "sample_state 1 1"]
  by (simp add: matcher_inv_def sample_state_simps CheckPattern_def PATTERN_LENGTH_def
      INT_MAX_def)

section \<open>Properties of the generated sequence\<close>

lemma rand_mod_3:
  assumes "0 \<le> r"
  shows "\<exists>c. Color_t_of_int (r smod 3) = Some c \<and> c \<in> target_colors"
proof -
  have eq: "r smod 3 = r mod 3"
    using assms by (simp add: smod_mod_positive)
  have "r mod 3 = 0 \<or> r mod 3 = 1 \<or> r mod 3 = 2"
    by presburger
  then show ?thesis
    unfolding eq by (auto simp add: Color_t_of_int_def target_colors_def)
qed

lemma Generate_Random_Pattern_loop_correct:
  assumes "\<forall>k. 0 \<le> rnd k"
  shows "\<exists>s'. Generate_Random_Pattern_loop rnd i s = Inr s'
           \<and> (\<forall>j. i \<le> j \<and> j < PATTERN_LENGTH \<longrightarrow> pattern s' j \<in> target_colors)
           \<and> (\<forall>j. j < i \<longrightarrow> pattern s' j = pattern s j)
           \<and> rand_calls s' = rand_calls s + (PATTERN_LENGTH - i)
           \<and> index s' = index s \<and> failCount s' = failCount s"
  using assms
proof (induction rnd i s rule: Generate_Random_Pattern_loop.induct)
  case (1 rnd i s)
  show ?case
  proof (cases "i < PATTERN_LENGTH")
    case False
    then show ?thesis
      by (auto simp add: Generate_Random_Pattern_loop.simps [of rnd i s])
  next
    case True
    have "0 \<le> rnd (rand_calls s)"
      using "1.prems" by blast
    from rand_mod_3 [OF this]
    obtain c where c: "Color_t_of_int (rnd (rand_calls s) smod 3) = Some c"
      and col: "c \<in> target_colors"
      by blast
    let ?s1 = "s\<lparr>pattern := (pattern s)(i := c), rand_calls := rand_calls s + 1\<rparr>"
    from "1.IH" [OF True c "1.prems"]
    obtain s' where run: "Generate_Random_Pattern_loop rnd (i + 1) ?s1 = Inr s'"
      and new: "\<forall>j. i + 1 \<le> j \<and> j < PATTERN_LENGTH \<longrightarrow> pattern s' j \<in> target_colors"
      and old: "\<forall>j. j < i + 1 \<longrightarrow> pattern s' j = pattern ?s1 j"
      and calls: "rand_calls s' = rand_calls ?s1 + (PATTERN_LENGTH - (i + 1))"
      and rest: "index s' = index ?s1" "failCount s' = failCount ?s1"
      by blast
    have here: "pattern s' i = c"
      using old by simp
    have unfold: "Generate_Random_Pattern_loop rnd i s = Inr s'"
      using True c run by (simp add: Generate_Random_Pattern_loop.simps [of rnd i s])
    have cells: "pattern s' j \<in> target_colors" if "i \<le> j" "j < PATTERN_LENGTH" for j
    proof (cases "j = i")
      case True
      then show ?thesis using here col by simp
    next
      case False
      then have "i + 1 \<le> j" using that by simp
      then show ?thesis using new that by blast
    qed
    have before: "pattern s' j = pattern s j" if "j < i" for j
      using old that by simp
    show ?thesis
      using unfold cells before calls rest True by auto
  qed
qed


lemma Generate_Random_Pattern_correct:
  assumes "\<forall>k. 0 \<le> rnd k"
  shows "\<exists>s'. Generate_Random_Pattern rnd s = Inr s'
           \<and> (\<forall>j<PATTERN_LENGTH. pattern s' j \<in> target_colors)
           \<and> rand_calls s' = rand_calls s + PATTERN_LENGTH
           \<and> index s' = index s \<and> failCount s' = failCount s"
  using Generate_Random_Pattern_loop_correct [OF assms, of 0 s]
  by (simp add: Generate_Random_Pattern_def)

text \<open>
  Claim C8. For every random source, that is every sequence of values that \<^verbatim>\<open>rand()\<close>
  returns (which the C library keeps between 0 and \<^verbatim>\<open>RAND_MAX\<close>, hence not negative),
  \<^verbatim>\<open>Generate_Random_Pattern\<close> returns, after four calls of \<^verbatim>\<open>rand()\<close>, with each of
  the four cells holding Green, Red or Yellow, and none holding Unknown.
\<close>

theorem Generate_Random_Pattern_colors:
  assumes "\<forall>k. 0 \<le> rnd k"
  shows "\<exists>s'. Generate_Random_Pattern rnd s = Inr s'
           \<and> (\<forall>i<PATTERN_LENGTH.
                 pattern s' i \<in> {COLOR_GREEN, COLOR_RED, COLOR_YELLOW}
                 \<and> pattern s' i \<noteq> COLOR_UNKNOWN)
           \<and> rand_calls s' = rand_calls s + PATTERN_LENGTH"
proof -
  from Generate_Random_Pattern_correct [OF assms, of s]
  obtain s' where all: "Generate_Random_Pattern rnd s = Inr s'
           \<and> (\<forall>j<PATTERN_LENGTH. pattern s' j \<in> target_colors)
           \<and> rand_calls s' = rand_calls s + PATTERN_LENGTH
           \<and> index s' = index s \<and> failCount s' = failCount s" ..
  have result: "Generate_Random_Pattern rnd s = Inr s'"
    using all by (rule conjunct1)
  have cells: "\<forall>j<PATTERN_LENGTH. pattern s' j \<in> target_colors"
    using all [THEN conjunct2] by (rule conjunct1)
  have count: "rand_calls s' = rand_calls s + PATTERN_LENGTH"
    using all [THEN conjunct2, THEN conjunct2] by (rule conjunct1)
  have colors: "\<forall>i<PATTERN_LENGTH.
      pattern s' i \<in> {COLOR_GREEN, COLOR_RED, COLOR_YELLOW} \<and> pattern s' i \<noteq> COLOR_UNKNOWN"
  proof (intro allI impI)
    fix i
    assume "i < PATTERN_LENGTH"
    with cells have "pattern s' i \<in> target_colors"
      by blast
    then show "pattern s' i \<in> {COLOR_GREEN, COLOR_RED, COLOR_YELLOW}
        \<and> pattern s' i \<noteq> COLOR_UNKNOWN"
      unfolding target_colors_def by auto
  qed
  show ?thesis
    using result colors count by blast
qed

lemma sample_rnd_nonneg: "\<forall>k. 0 \<le> sample_rnd k"
  by (simp add: sample_rnd_def)

lemma Generate_Random_Pattern_sample:
  "(case Generate_Random_Pattern sample_rnd initial_state of
      Inl f \<Rightarrow> []
    | Inr s' \<Rightarrow> map (pattern s') [0..<PATTERN_LENGTH])
   = [COLOR_RED, COLOR_YELLOW, COLOR_GREEN, COLOR_RED]"
  by code_simp

theorem Generate_Random_Pattern_colors_witness:
  "(case Generate_Random_Pattern sample_rnd initial_state of
      Inl f \<Rightarrow> []
    | Inr s' \<Rightarrow> map (pattern s') [0..<PATTERN_LENGTH])
   = [COLOR_RED, COLOR_YELLOW, COLOR_GREEN, COLOR_RED]"
  using Generate_Random_Pattern_colors [OF sample_rnd_nonneg, of initial_state]
    Generate_Random_Pattern_sample
  by simp

section \<open>The pattern as a frame of the matcher and of the loop\<close>

lemma CheckPattern_frame:
  assumes "CheckPattern d s = Inr (r, s1)"
  shows "pattern s1 = pattern s \<and> rand_calls s1 = rand_calls s"
proof (cases "d = COLOR_UNKNOWN")
  case True
  then show ?thesis
    using assms by (simp add: CheckPattern_UNKNOWN)
next
  case False
  then show ?thesis
    using assms
    by (auto simp add: CheckPattern_def Let_def split: if_splits)
qed

lemma Show_Pattern_loop_pattern:
  "pattern s1 = pattern s \<Longrightarrow> Show_Pattern_loop i s1 = Show_Pattern_loop i s"
proof (induction i s rule: Show_Pattern_loop.induct)
  case (1 i s)
  show ?case
  proof (cases "i < PATTERN_LENGTH")
    case True
    then show ?thesis
      using "1.IH" [OF True "1.prems"] "1.prems"
      by (simp add: Show_Pattern_loop.simps [of i s] Show_Pattern_loop.simps [of i s1])
  next
    case False
    then show ?thesis
      by (simp add: Show_Pattern_loop.simps [of i s] Show_Pattern_loop.simps [of i s1])
  qed
qed

lemma Show_Pattern_pattern: "pattern s1 = pattern s \<Longrightarrow> Show_Pattern s1 = Show_Pattern s"
  unfolding Show_Pattern_def by (rule Show_Pattern_loop_pattern)

lemma loop_body_hard_fail:
  assumes "CheckPattern (snd (Hold_Color R G B)) s = Inr (0, s1)"
  shows "loop_body rnd R G B s =
     Inr ([PMOD_Color_LED_Control_Enable, Printf_rgb R G B, Clock_Delay1ms 50]
          @ fst (Hold_Color R G B)
          @ [Printf ''Wrong! Restarting...\<newline>'', LED2_Output RGB_LED_PINK,
             Clock_Delay1ms 2500, LED2_Output RGB_LED_OFF, Clock_Delay1ms 500,
             Motor_Left 4500 4500, Clock_Delay1ms 2000,
             Motor_Right 4500 4500, Clock_Delay1ms 2000, Motor_Stop]
          @ Show_Pattern s1, s1)"
proof -
  obtain ev1 detect where hold: "Hold_Color R G B = (ev1, detect)"
    by (cases "Hold_Color R G B")
  have check: "CheckPattern detect s = Inr (0, s1)"
    using assms hold by simp
  show ?thesis
    by (simp add: loop_body_def hold check)
qed

lemma loop_body_other:
  assumes "CheckPattern (snd (Hold_Color R G B)) s = Inr (r, s1)" "r \<noteq> 2"
  shows "\<exists>ev. loop_body rnd R G B s = Inr (ev, s1)"
proof -
  obtain ev1 detect where hold: "Hold_Color R G B = (ev1, detect)"
    by (cases "Hold_Color R G B")
  have check: "CheckPattern detect s = Inr (r, s1)"
    using assms hold by simp
  show ?thesis
    using assms(2) by (simp add: loop_body_def hold check Let_def)
qed

lemma loop_body_complete:
  assumes "CheckPattern (snd (Hold_Color R G B)) s = Inr (2, s1)"
    and "Generate_Random_Pattern rnd s1 = Inr s2"
  shows "loop_body rnd R G B s =
     Inr ([PMOD_Color_LED_Control_Enable, Printf_rgb R G B, Clock_Delay1ms 50]
          @ fst (Hold_Color R G B)
          @ [Printf ''ACCESS GRANTED!\<newline>'', LED2_Output RGB_LED_SKY_BLUE,
             Clock_Delay1ms 3000, LED2_Output RGB_LED_OFF,
             Motor_Forward 3000 3000, Clock_Delay1ms 2000,
             Motor_Backward 3000 3000, Clock_Delay1ms 2000, Motor_Stop]
          @ Show_Pattern s2, s2)"
proof -
  obtain ev1 detect where hold: "Hold_Color R G B = (ev1, detect)"
    by (cases "Hold_Color R G B")
  have check: "CheckPattern detect s = Inr (2, s1)"
    using assms hold by simp
  show ?thesis
    by (simp add: loop_body_def hold check assms(2))
qed

text \<open>
  Claim C9. \<^verbatim>\<open>CheckPattern\<close> never writes the target sequence: whatever it is given and
  whatever it returns, hard failure included, \<^verbatim>\<open>pattern\<close> is the same array afterwards
  (and from a state within the invariant it does return). In the loop of \<^verbatim>\<open>main\<close>, a
  hard failure (result 0) shows the unchanged pattern again and calls \<^verbatim>\<open>rand()\<close> not
  once; so does no other result than 2. The pattern is generated anew only before the
  loop and after the result 2 (sequence complete), where four more values of \<^verbatim>\<open>rand()\<close>
  are drawn and the new pattern is shown.
\<close>

theorem pattern_unchanged:
  "(CheckPattern d s = Inr (r, s1) \<longrightarrow> pattern s1 = pattern s)
   \<and> (matcher_inv s \<longrightarrow> (\<exists>r' s'. CheckPattern d s = Inr (r', s') \<and> pattern s' = pattern s))
   \<and> (CheckPattern (snd (Hold_Color R G B)) s = Inr (0, s1) \<longrightarrow>
        (\<exists>ev. loop_body rnd R G B s = Inr (ev @ Show_Pattern s, s1))
        \<and> pattern s1 = pattern s \<and> rand_calls s1 = rand_calls s)
   \<and> (CheckPattern (snd (Hold_Color R G B)) s = Inr (r, s1) \<and> r \<noteq> 2 \<longrightarrow>
        (\<exists>ev. loop_body rnd R G B s = Inr (ev, s1))
        \<and> pattern s1 = pattern s \<and> rand_calls s1 = rand_calls s)
   \<and> (CheckPattern (snd (Hold_Color R G B)) s = Inr (2, s1) \<and> (\<forall>k. 0 \<le> rnd k) \<longrightarrow>
        (\<exists>ev s2. Generate_Random_Pattern rnd s1 = Inr s2
           \<and> loop_body rnd R G B s = Inr (ev @ Show_Pattern s2, s2)
           \<and> rand_calls s2 = rand_calls s + PATTERN_LENGTH))
   \<and> (Generate_Random_Pattern rnd initial_state = Inr s0 \<longrightarrow>
        main_start rnd = Inr (Show_Pattern s0, s0))"
proof -
  have frame: "pattern s1 = pattern s" if "CheckPattern d s = Inr (r, s1)"
    using CheckPattern_frame [OF that] by (rule conjunct1)
  have returns: "\<exists>r' s'. CheckPattern d s = Inr (r', s') \<and> pattern s' = pattern s"
    if "matcher_inv s"
    using CheckPattern_total [OF that, of d] by blast
  have fail: "(\<exists>ev. loop_body rnd R G B s = Inr (ev @ Show_Pattern s, s1))
      \<and> pattern s1 = pattern s \<and> rand_calls s1 = rand_calls s"
    if c: "CheckPattern (snd (Hold_Color R G B)) s = Inr (0, s1)"
  proof -
    note same = CheckPattern_frame [OF c]
    have "Show_Pattern s1 = Show_Pattern s"
      using same by (intro Show_Pattern_pattern) simp
    then have "\<exists>ev. loop_body rnd R G B s = Inr (ev @ Show_Pattern s, s1)"
      using loop_body_hard_fail [OF c, of rnd] by (metis append_assoc)
    then show ?thesis
      using same by simp
  qed
  have other: "(\<exists>ev. loop_body rnd R G B s = Inr (ev, s1))
      \<and> pattern s1 = pattern s \<and> rand_calls s1 = rand_calls s"
    if c: "CheckPattern (snd (Hold_Color R G B)) s = Inr (r, s1)" and r: "r \<noteq> 2"
    using loop_body_other [OF c r, of rnd] CheckPattern_frame [OF c] by simp
  have complete: "\<exists>ev s2. Generate_Random_Pattern rnd s1 = Inr s2
           \<and> loop_body rnd R G B s = Inr (ev @ Show_Pattern s2, s2)
           \<and> rand_calls s2 = rand_calls s + PATTERN_LENGTH"
    if c: "CheckPattern (snd (Hold_Color R G B)) s = Inr (2, s1)" and rnd: "\<forall>k. 0 \<le> rnd k"
  proof -
    from Generate_Random_Pattern_correct [OF rnd, of s1]
    obtain s2 where all: "Generate_Random_Pattern rnd s1 = Inr s2
           \<and> (\<forall>j<PATTERN_LENGTH. pattern s2 j \<in> target_colors)
           \<and> rand_calls s2 = rand_calls s1 + PATTERN_LENGTH
           \<and> index s2 = index s1 \<and> failCount s2 = failCount s1" ..
    have gen: "Generate_Random_Pattern rnd s1 = Inr s2"
      using all by (rule conjunct1)
    have calls: "rand_calls s2 = rand_calls s + PATTERN_LENGTH"
      using all CheckPattern_frame [OF c] by simp
    have "\<exists>ev. loop_body rnd R G B s = Inr (ev @ Show_Pattern s2, s2)"
      using loop_body_complete [OF c gen] by (metis append_assoc)
    then show ?thesis
      using gen calls by blast
  qed
  have start: "main_start rnd = Inr (Show_Pattern s0, s0)"
    if "Generate_Random_Pattern rnd initial_state = Inr s0"
    using that by (simp add: main_start_def)
  show ?thesis
    using frame returns fail other complete start by blast
qed

lemma Hold_Color_green_sample: "snd (Hold_Color 20000 30000 1000) = COLOR_GREEN"
  by (simp add: Hold_Color_def Detect_Color_def int_of_uint16_def word_sless_alt)

lemma Hold_Color_red_sample: "snd (Hold_Color 30000 1000 1000) = COLOR_RED"
  by (simp add: Hold_Color_def Detect_Color_def int_of_uint16_def word_sless_alt)

theorem pattern_unchanged_witness:
  "CheckPattern (snd (Hold_Color 20000 30000 1000)) (sample_state 1 1)
     = Inr (0, sample_state 0 0)
   \<and> pattern (sample_state 0 0) = pattern (sample_state 1 1)
   \<and> rand_calls (sample_state 0 0) = rand_calls (sample_state 1 1)
   \<and> CheckPattern (snd (Hold_Color 30000 1000 1000)) (sample_state 3 0)
       = Inr (2, sample_state 0 0)
   \<and> matcher_inv (sample_state 1 1)"
  using pattern_unchanged [where d = COLOR_GREEN and s = "sample_state 1 1" and r = 0
      and ?s1.0 = "sample_state 0 0" and R = 20000 and G = 30000 and B = 1000
      and rnd = sample_rnd]
    pattern_unchanged [where d = COLOR_RED and s = "sample_state 3 0" and r = 2
      and ?s1.0 = "sample_state 0 0" and R = 30000 and G = 1000 and B = 1000
      and rnd = sample_rnd]
  by (simp add: Hold_Color_green_sample Hold_Color_red_sample sample_state_simps
      CheckPattern_def PATTERN_LENGTH_def INT_MAX_def matcher_inv_def sample_state_def)

end
